theory Spec2Isabelle
  imports Complex_Main "HOL-Library.Log_Nat"
begin

section \<open>Data model of the HOS scheduler (trips/hos.py)\<close>

text \<open>
  Instants are local wall-clock hours counted from midnight of day 0, as a \<open>real\<close>:
  the Python code adds \<open>timedelta(hours=...)\<close> to a \<open>datetime\<close> and reads differences back
  with \<open>total_seconds() / 3600\<close>. The hours of the scheduler are read as exact reals, and
  the rounding of a \<open>timedelta\<close> to whole microseconds is left out. A calendar date is the
  day number \<open>\<lfloor>t / 24\<rfloor>\<close>, where the code has the ISO string of the date. Entries and logs
  are the dictionaries the code builds, with the same keys.
\<close>

record entry =
  start_time :: string
  end_time :: string
  status :: string
  location :: string
  duration :: real

record totals =
  driving_hours :: real
  on_duty_hours :: real
  off_duty_hours :: real

record daily_log =
  date :: int
  entries :: "entry list"
  totals :: totals

record segment =
  seg_type :: string
  seg_duration :: real
  seg_location :: string

text \<open>The local variables of \<open>hos_scheduler\<close>, threaded through the loops.\<close>

record sched =
  day_start :: real
  current_time :: real
  daily_logs :: "daily_log list"
  daily_entries :: "entry list"
  daily_driving :: real
  daily_on_duty :: real
  daily_off_duty :: real
  weekly_hours :: real
  consecutive_driving :: real

subsection \<open>Dates and clock strings\<close>

definition date_of :: "real \<Rightarrow> int" where
  "date_of t = \<lfloor>t / 24\<rfloor>"

text \<open>\<open>t.replace(hour=0, minute=0, second=0, microsecond=0)\<close>\<close>

definition floor_day :: "real \<Rightarrow> real" where
  "floor_day t = 24 * of_int (date_of t)"

definition two_digits :: "nat \<Rightarrow> string" where
  "two_digits n = [''0123456789'' ! ((n div 10) mod 10), ''0123456789'' ! (n mod 10)]"

text \<open>\<open>t.strftime('%H:%M')\<close>: hour and minute of the local time of day, seconds dropped.\<close>

definition strftime_HM :: "real \<Rightarrow> string" where
  "strftime_HM t =
     (let tod = t - floor_day t;
          h = nat \<lfloor>tod\<rfloor>;
          m = nat \<lfloor>(tod - of_int \<lfloor>tod\<rfloor>) * 60\<rfloor>
      in two_digits h @ '':'' @ two_digits m)"

subsection \<open>Building blocks of the scheduler\<close>

text \<open>
  The off-duty entry from midnight to the current instant, added when the current instant
  is strictly after \<open>day_start\<close> (lines 36-45, and again at each new day).
\<close>

definition leading_off_duty :: "sched \<Rightarrow> sched" where
  "leading_off_duty s =
     (if current_time s > day_start s then
        let off_duty_duration = current_time s - day_start s in
        s\<lparr>daily_entries := daily_entries s @
             [\<lparr>start_time = ''00:00'', end_time = strftime_HM (current_time s),
               status = ''off_duty'', location = ''Off Duty'',
               duration = off_duty_duration\<rparr>],
          daily_off_duty := daily_off_duty s + off_duty_duration\<rparr>
      else s)"

definition save_day :: "sched \<Rightarrow> daily_log" where
  "save_day s =
     \<lparr>date = date_of (day_start s), entries = daily_entries s,
      totals = \<lparr>driving_hours = daily_driving s, on_duty_hours = daily_on_duty s,
                off_duty_hours = daily_off_duty s\<rparr>\<rparr>"

text \<open>
  The midnight check, written four times in the source with the same body (lines 69-102,
  143-176, 223-256, 286-319): when the date of \<open>current_time\<close> differs from the date of
  \<open>day_start\<close>, the open day is saved and a new one is opened at the midnight of
  \<open>current_time\<close>.
\<close>

definition new_day_check :: "sched \<Rightarrow> sched" where
  "new_day_check s =
     (if date_of (current_time s) \<noteq> date_of (day_start s) then
        leading_off_duty
          (s\<lparr>daily_logs := daily_logs s @ [save_day s],
             day_start := floor_day (current_time s),
             daily_entries := [],
             daily_driving := 0, daily_on_duty := 0, daily_off_duty := 0\<rparr>)
      else s)"

text \<open>
  An inserted break: one off-duty entry of the whole length in the open day, and
  \<open>current_time\<close> advanced by it. The counters each check resets are set by the caller.
\<close>

definition insert_break :: "string \<Rightarrow> real \<Rightarrow> sched \<Rightarrow> sched" where
  "insert_break label break_duration s =
     s\<lparr>daily_entries := daily_entries s @
          [\<lparr>start_time = strftime_HM (current_time s),
            end_time = strftime_HM (current_time s + break_duration),
            status = ''off_duty'', location = label, duration = break_duration\<rparr>],
       daily_off_duty := daily_off_duty s + break_duration,
       current_time := current_time s + break_duration\<rparr>"

text \<open>
  One chunk of a segment: the entry and the counters of the three branches
  (lines 186-197, 266-275, 329-339).
\<close>

definition emit_chunk :: "string \<Rightarrow> string \<Rightarrow> real \<Rightarrow> sched \<Rightarrow> sched" where
  "emit_chunk ty loc segment_duration s =
     (let e = \<lparr>start_time = strftime_HM (current_time s),
                end_time = strftime_HM (current_time s + segment_duration),
                status = (if ty = ''drive'' then ''driving'' else ty),
                location = loc, duration = segment_duration\<rparr>;
          s1 = s\<lparr>daily_entries := daily_entries s @ [e],
                 current_time := current_time s + segment_duration\<rparr>
      in if ty = ''drive'' then
           s1\<lparr>daily_driving := daily_driving s + segment_duration,
              daily_on_duty := daily_on_duty s + segment_duration,
              consecutive_driving := consecutive_driving s + segment_duration\<rparr>
         else if ty = ''on_duty'' then
           s1\<lparr>daily_on_duty := daily_on_duty s + segment_duration\<rparr>
         else
           s1\<lparr>daily_off_duty := daily_off_duty s + segment_duration,
              consecutive_driving := 0\<rparr>)"

text \<open>
  The inner \<open>while remaining_duration > 0\<close> loop, the same in the three branches but for
  the chunk it emits: midnight check, chunk of at most the time left in the day.
\<close>

function segment_loop :: "string \<Rightarrow> string \<Rightarrow> sched \<Rightarrow> real \<Rightarrow> sched" where
  "segment_loop ty loc s remaining_duration =
     (if remaining_duration > 0 then
        let s1 = new_day_check s;
            time_left_in_day = day_start s1 + 24 - current_time s1;
            segment_duration = min remaining_duration time_left_in_day
        in segment_loop ty loc (emit_chunk ty loc segment_duration s1)
             (remaining_duration - segment_duration)
      else s)"
  by pat_completeness auto

text \<open>
  The loop ends: after the midnight check the clock stands in the open day, so every chunk
  is positive, and a chunk that does not finish the segment ends at the next midnight.
\<close>

lemma current_time_leading_off_duty [simp]:
  "current_time (leading_off_duty s) = current_time s"
  by (simp add: leading_off_duty_def Let_def)

lemma day_start_leading_off_duty [simp]:
  "day_start (leading_off_duty s) = day_start s"
  by (simp add: leading_off_duty_def Let_def)

lemma current_time_new_day_check [simp]:
  "current_time (new_day_check s) = current_time s"
  by (simp add: new_day_check_def)

lemma date_of_floor_day [simp]: "date_of (floor_day t) = date_of t"
  by (simp add: floor_day_def date_of_def)

lemma date_of_day_start_new_day_check [simp]:
  "date_of (day_start (new_day_check s)) = date_of (current_time s)"
  by (simp add: new_day_check_def)

lemma current_time_emit_chunk [simp]:
  "current_time (emit_chunk ty loc d s) = current_time s + d"
  by (simp add: emit_chunk_def Let_def)

lemma same_date_time_left:
  assumes "date_of d = date_of c"
  shows "c < d + 24" and "date_of c < date_of (d + 24)"
proof -
  have "c / 24 < of_int \<lfloor>c / 24\<rfloor> + 1" by linarith
  also have "\<dots> = of_int \<lfloor>d / 24\<rfloor> + 1" using assms by (simp add: date_of_def)
  also have "\<dots> \<le> d / 24 + 1" by linarith
  finally show "c < d + 24" by simp
  have "\<lfloor>(d + 24) / 24\<rfloor> = \<lfloor>d / 24\<rfloor> + 1"
    by (simp add: add_divide_distrib)
  then show "date_of c < date_of (d + 24)" using assms by (simp add: date_of_def)
qed

termination segment_loop
proof (relation "measure (\<lambda>(ty, loc, s, r).
          if r > 0 then Suc (nat (\<lceil>(current_time s + r) / 24\<rceil> - date_of (current_time s))) else 0)",
       goal_cases)
  case 1
  show ?case by simp
next
  case (2 ty loc s r s1 tl d)
  have same: "date_of (day_start s1) = date_of (current_time s)"
    using 2 by simp
  have tl_pos: "0 < tl" using same_date_time_left(1)[OF same] 2 by simp
  show ?case
  proof (cases "r \<le> tl")
    case True
    then show ?thesis using 2 by (simp add: min_def)
  next
    case False
    then have d: "d = tl" using 2 by (simp add: min_def)
    have ct: "current_time s + d = day_start s1 + 24" using d 2 by simp
    have lt: "date_of (current_time s) < date_of (current_time s + d)"
      using same_date_time_left(2)[OF same] ct by simp
    have "(current_time s + d) / 24 < (current_time s + r) / 24"
      using False d by simp
    then have "date_of (current_time s + d) < \<lceil>(current_time s + r) / 24\<rceil>"
      unfolding date_of_def by linarith
    with lt have "nat (\<lceil>(current_time s + r) / 24\<rceil> - date_of (current_time s + d))
        < nat (\<lceil>(current_time s + r) / 24\<rceil> - date_of (current_time s))"
      by linarith
    moreover have "0 < r - d" "current_time s + d + (r - d) = current_time s + r"
      using False d by simp_all
    moreover have "current_time s1 = current_time s" using 2 by simp
    ultimately show ?thesis using 2(1) by simp
  qed
qed

declare segment_loop.simps [simp del]

subsection \<open>The checks made once at the start of a segment\<close>

text \<open>Lines 108-122: the 11-hour driving limit, tested on the day's driving total.\<close>

definition eleven_hour_check :: "real \<Rightarrow> sched \<Rightarrow> sched" where
  "eleven_hour_check dur s =
     (if daily_driving s + dur > 11 then
        (insert_break ''Rest Break (10 hours)'' 10 s)
          \<lparr>daily_driving := 0, consecutive_driving := 0\<rparr>
      else s)"

text \<open>Lines 124-137: the 30-minute break after 8 hours of consecutive driving.\<close>

definition eight_hour_check :: "real \<Rightarrow> sched \<Rightarrow> sched" where
  "eight_hour_check dur s =
     (if consecutive_driving s + dur > 8 then
        (insert_break ''30-min Break'' (1/2) s)\<lparr>consecutive_driving := 0\<rparr>
      else s)"

text \<open>Lines 204-217: the 14-hour on-duty window, tested on the day's on-duty total.\<close>

definition fourteen_hour_check :: "real \<Rightarrow> sched \<Rightarrow> sched" where
  "fourteen_hour_check dur s =
     (if daily_on_duty s + dur > 14 then
        (insert_break ''14-hour Reset'' 10 s)\<lparr>daily_on_duty := 0\<rparr>
      else s)"

text \<open>
  The body of \<open>for segment in segments\<close>: the midnight check, then the branch of the
  segment's type. A type that is none of the three strings matches no branch.
\<close>

definition process_segment :: "sched \<Rightarrow> segment \<Rightarrow> sched" where
  "process_segment s seg =
     (let segment_type = seg_type seg;
          dur = seg_duration seg;
          loc = seg_location seg;
          s1 = new_day_check s
      in if segment_type = ''drive'' then
           segment_loop ''drive'' loc (eight_hour_check dur (eleven_hour_check dur s1)) dur
         else if segment_type = ''on_duty'' then
           segment_loop ''on_duty'' loc (fourteen_hour_check dur s1) dur
         else if segment_type = ''off_duty'' then
           segment_loop ''off_duty'' loc s1 dur
         else s1)"

text \<open>Lines 22-60: the initial state, the leading off-duty entry and the 70-hour check.\<close>

definition initial_state :: "real \<Rightarrow> real \<Rightarrow> sched" where
  "initial_state start weekly_used =
     \<lparr>day_start = floor_day start, current_time = start, daily_logs = [],
      daily_entries = [], daily_driving = 0, daily_on_duty = 0, daily_off_duty = 0,
      weekly_hours = weekly_used, consecutive_driving = 0\<rparr>"

definition weekly_check :: "sched \<Rightarrow> sched" where
  "weekly_check s =
     (if weekly_hours s > 70 then
        (insert_break ''34-hour Restart'' 34 s)\<lparr>weekly_hours := 0\<rparr>
      else s)"

text \<open>Lines 345-370: the closing off-duty entry, the weekly total and the last day.\<close>

definition final_off_duty :: "sched \<Rightarrow> sched" where
  "final_off_duty s =
     (let day_end = day_start s + 24 in
      if current_time s < day_end then
        let final_off_duty_duration = day_end - current_time s in
        s\<lparr>daily_entries := daily_entries s @
             [\<lparr>start_time = strftime_HM (current_time s), end_time = ''24:00'',
               status = ''off_duty'', location = ''Off Duty'',
               duration = final_off_duty_duration\<rparr>],
          daily_off_duty := daily_off_duty s + final_off_duty_duration\<rparr>
      else s)"

definition run_segments :: "sched \<Rightarrow> segment list \<Rightarrow> sched" where
  "run_segments s segments = foldl process_segment s segments"

definition hos_scheduler :: "real \<Rightarrow> segment list \<Rightarrow> real \<Rightarrow> daily_log list" where
  "hos_scheduler start segments weekly_used =
     (let s0 = weekly_check (leading_off_duty (initial_state start weekly_used));
          s1 = run_segments s0 segments;
          s2 = final_off_duty s1;
          s3 = s2\<lparr>weekly_hours := weekly_hours s2 + daily_on_duty s2\<rparr>
      in daily_logs s3 @ [save_day s3])"

section \<open>Python floats\<close>

text \<open>
  A Python float is an IEEE 754 double. The route client and the builders of the response
  truncate floats and take square roots, where the last bit decides the result, so their
  arithmetic is read as the machine does it: every operation returns the double nearest to
  the exact result, ties to the even significand. Overflow, subnormal numbers, signed zeros
  and NaN are left out.
\<close>

text \<open>\<open>\<lfloor>log\<^sub>2 x\<rfloor>\<close> for a positive \<open>x\<close>, and the powers of two.\<close>

definition ilog2 :: "real \<Rightarrow> int" where
  "ilog2 x = (if 1 \<le> x then bitlen \<lfloor>x\<rfloor> - 1 else - bitlen (\<lceil>1 / x\<rceil> - 1))"

definition pow2 :: "int \<Rightarrow> real" where
  "pow2 k = (if 0 \<le> k then 2 ^ nat k else 1 / 2 ^ nat (- k))"

definition round_half_even :: "real \<Rightarrow> int" where
  "round_half_even x =
     (let f = \<lfloor>x\<rfloor>; r = x - of_int f
      in if r < 1/2 then f else if r > 1/2 then f + 1 else if even f then f else f + 1)"

text \<open>The double nearest to \<open>x\<close>: 53 significant bits.\<close>

definition fl64 :: "real \<Rightarrow> real" where
  "fl64 x =
     (if x = 0 then 0
      else let ulp = pow2 (ilog2 \<bar>x\<bar> - 52)
           in of_int (round_half_even (x / ulp)) * ulp)"

text \<open>The operators \<open>+\<close>, \<open>-\<close>, \<open>*\<close> and \<open>/\<close> on floats (\<open>/\<close> for a divisor that is not zero).\<close>

definition fadd :: "real \<Rightarrow> real \<Rightarrow> real" where
  "fadd x y = fl64 (x + y)"

definition fsub :: "real \<Rightarrow> real \<Rightarrow> real" where
  "fsub x y = fl64 (x - y)"

definition fmul :: "real \<Rightarrow> real \<Rightarrow> real" where
  "fmul x y = fl64 (x * y)"

definition fdiv :: "real \<Rightarrow> real \<Rightarrow> real" where
  "fdiv x y = fl64 (x / y)"

text \<open>\<open>int(x)\<close> on a float truncates towards zero.\<close>

definition py_int :: "real \<Rightarrow> int" where
  "py_int x = (if x \<ge> 0 then \<lfloor>x\<rfloor> else \<lceil>x\<rceil>)"

text \<open>
  \<open>round(x, 2)\<close>: the decimal with two places nearest to the double \<open>x\<close>, ties to even,
  and then the double nearest to that decimal.
\<close>

definition py_round2 :: "real \<Rightarrow> real" where
  "py_round2 x = fl64 (of_int (round_half_even (x * 100)) / 100)"

text \<open>
  The functions of the \<open>math\<close> module. \<open>math.radians\<close> multiplies by the constant
  \<open>pi / 180\<close>, itself computed in doubles. \<open>math.sqrt\<close> raises ValueError on a negative
  argument. The results of the C library are taken as correctly rounded.
\<close>

definition radians :: "real \<Rightarrow> real" where
  "radians x = fmul x (fdiv (fl64 pi) 180)"

text \<open>The exceptions that the code can raise here, as values.\<close>

datatype py_error = ZeroDivisionError | ValueError

definition py_sqrt :: "real \<Rightarrow> py_error + real" where
  "py_sqrt x = (if x < 0 then Inl ValueError else Inr (fl64 (sqrt x)))"

definition py_sin :: "real \<Rightarrow> real" where
  "py_sin x = fl64 (sin x)"

definition py_cos :: "real \<Rightarrow> real" where
  "py_cos x = fl64 (cos x)"

definition py_atan2 :: "real \<Rightarrow> real \<Rightarrow> real" where
  "py_atan2 y x =
     fl64 (if x > 0 then arctan (y / x)
           else if x < 0 then (if y \<ge> 0 then arctan (y / x) + pi else arctan (y / x) - pi)
           else if y > 0 then pi / 2
           else if y < 0 then - pi / 2
           else 0)"

section \<open>Route client (trips/ors\_client.py)\<close>

text \<open>
  A coordinate is the pair (longitude, latitude). Of a route's geometry only the
  coordinate list is kept. The record fields carry a prefix where the dictionary keys
  \<open>distance\<close>, \<open>duration\<close> and \<open>coordinates\<close> would clash with other records.
\<close>

type_synonym coord = "real \<times> real"

record route_data =
  route_distance :: real
  route_duration :: real
  route_coordinates :: "coord list"

text \<open>
  What one HTTP attempt comes to inside the \<open>try\<close> block of a provider function:
  \<open>Raised\<close> is any exception (connection error, timeout after 30 s, \<open>raise_for_status\<close>
  on a non-2xx answer, a body that is not JSON or lacks a key), \<open>No_result\<close> a body
  with no or an empty \<open>routes\<close> / \<open>features\<close> list, \<open>Found m s g\<close> a first result of
  \<open>m\<close> metres and \<open>s\<close> seconds with geometry \<open>g\<close>.
\<close>

datatype reply = Raised | No_result | Found real real "coord list"

datatype provider = Mapbox | ORS

record settings =
  MAPBOX_ACCESS_TOKEN :: "string option"
  ORS_API_KEY :: "string option"

record network =
  mapbox_reply :: reply
  ors_reply :: reply

text \<open>\<open>hasattr(settings, K) and settings.K\<close>: the key is set and not empty.\<close>

definition available :: "string option \<Rightarrow> bool" where
  "available k = (case k of None \<Rightarrow> False | Some v \<Rightarrow> v \<noteq> [])"

text \<open>
  The estimator (lines 153-202). The term \<open>a\<close> of the haversine formula is computed in
  doubles, and nothing keeps it between 0 and 1: each of the two square roots raises
  ValueError when its argument comes out negative, and no caller catches it.
\<close>

definition haversine_a :: "coord \<Rightarrow> coord \<Rightarrow> real" where
  "haversine_a coord1 coord2 =
     (let lat1 = snd coord1; lon1 = fst coord1;
          lat2 = snd coord2; lon2 = fst coord2;
          dlat = radians (fsub lat2 lat1);
          dlon = radians (fsub lon2 lon1)
      in fadd (fmul (py_sin (fdiv dlat 2)) (py_sin (fdiv dlat 2)))
              (fmul (fmul (fmul (py_cos (radians lat1)) (py_cos (radians lat2)))
                          (py_sin (fdiv dlon 2)))
                    (py_sin (fdiv dlon 2))))"

definition haversine_distance :: "coord \<Rightarrow> coord \<Rightarrow> py_error + real" where
  "haversine_distance coord1 coord2 =
     (let a = haversine_a coord1 coord2 in
      case py_sqrt a of
        Inl e \<Rightarrow> Inl e
      | Inr sa \<Rightarrow>
          (case py_sqrt (fsub 1 a) of
             Inl e \<Rightarrow> Inl e
           | Inr sb \<Rightarrow> Inr (fmul 3959 (fmul 2 (py_atan2 sa sb)))))"

definition get_mock_route :: "coord \<Rightarrow> coord \<Rightarrow> coord \<Rightarrow> py_error + route_data" where
  "get_mock_route current pickup dropoff =
     (case haversine_distance current pickup of
        Inl e \<Rightarrow> Inl e
      | Inr d1 \<Rightarrow>
          (case haversine_distance pickup dropoff of
             Inl e \<Rightarrow> Inl e
           | Inr d2 \<Rightarrow>
               let total_distance = fadd (fadd 0 d1) d2;
                   estimated_duration = fdiv total_distance 50
               in Inr \<lparr>route_distance = py_round2 total_distance,
                        route_duration = py_round2 estimated_duration,
                        route_coordinates = [current, pickup, dropoff]\<rparr>))"

text \<open>
  The two provider functions have the same shape: a first result is converted
  (metres to miles, seconds to hours, two decimals); no result, or any exception,
  ends in \<open>_get_mock_route\<close>.
\<close>

definition convert_reply ::
  "reply \<Rightarrow> coord \<Rightarrow> coord \<Rightarrow> coord \<Rightarrow> py_error + route_data" where
  "convert_reply r current pickup dropoff =
     (case r of
        Found metres seconds geometry \<Rightarrow>
          Inr \<lparr>route_distance = py_round2 (fmul metres (fl64 (621371 / 1000000000))),
               route_duration = py_round2 (fdiv seconds 3600),
               route_coordinates = geometry\<rparr>
      | No_result \<Rightarrow> get_mock_route current pickup dropoff
      | Raised \<Rightarrow> get_mock_route current pickup dropoff)"

definition get_mapbox_route ::
  "network \<Rightarrow> coord \<Rightarrow> coord \<Rightarrow> coord \<Rightarrow> py_error + route_data" where
  "get_mapbox_route net current pickup dropoff =
     convert_reply (mapbox_reply net) current pickup dropoff"

definition get_ors_route ::
  "network \<Rightarrow> coord \<Rightarrow> coord \<Rightarrow> coord \<Rightarrow> py_error + route_data" where
  "get_ors_route net current pickup dropoff =
     convert_reply (ors_reply net) current pickup dropoff"

text \<open>
  \<open>get_route\<close>, with the list of providers it sent a request to as the first component
  of the result (the HTTP calls are the function's only effect).
\<close>

definition get_route ::
  "settings \<Rightarrow> network \<Rightarrow> coord \<Rightarrow> coord \<Rightarrow> coord
     \<Rightarrow> provider list \<times> (py_error + route_data)" where
  "get_route cfg net current pickup dropoff =
     (let mapbox_available = available (MAPBOX_ACCESS_TOKEN cfg);
          ors_available = available (ORS_API_KEY cfg)
      in if mapbox_available then ([Mapbox], get_mapbox_route net current pickup dropoff)
         else if ors_available then ([ORS], get_ors_route net current pickup dropoff)
         else ([], get_mock_route current pickup dropoff))"

section \<open>Trip planner (trips/views.py)\<close>

subsection \<open>Segment planning (lines 91-175)\<close>

text \<open>
  The planner's segments, without the \<open>coordinates\<close> key, which the scheduler never
  reads. Their hours go to the scheduler and are read as exact reals, as there. The drive segments' location is an f-string with a number and a float rendered
  to one decimal; its rendering is the parameter \<open>label\<close>.
\<close>

function short_trip_loop ::
  "(nat \<Rightarrow> real \<Rightarrow> string) \<Rightarrow> real \<Rightarrow> real \<Rightarrow> real \<Rightarrow> nat \<Rightarrow> segment list" where
  "short_trip_loop label total_distance total_drive_duration current_distance segment_number =
     (if current_distance < total_distance then
        let remaining_distance = total_distance - current_distance;
            segment_distance = min remaining_distance 1000;
            segment_drive_time = (segment_distance / total_distance) * total_drive_duration;
            current_distance' = current_distance + segment_distance
        in \<lparr>seg_type = ''drive'', seg_duration = segment_drive_time,
             seg_location = label segment_number segment_distance\<rparr> #
           (if current_distance' < total_distance then
              [\<lparr>seg_type = ''on_duty'', seg_duration = 1/2, seg_location = ''Fueling Stop''\<rparr>]
            else []) @
           short_trip_loop label total_distance total_drive_duration current_distance'
             (Suc segment_number)
      else [])"
  by pat_completeness auto
termination
proof (relation "measure (\<lambda>(label, total, dur, cur, n). nat \<lceil>(total - cur) / 1000\<rceil>)",
       goal_cases)
  case 1
  show ?case by simp
next
  case (2 label total dur cur n rem d t cur')
  show ?case
  proof (cases "rem \<le> 1000")
    case True
    then have "total - cur' = 0" using 2 by (simp add: min_def)
    moreover have "0 < (total - cur) / 1000" using 2 by simp
    then have "0 < \<lceil>(total - cur) / 1000\<rceil>" by linarith
    ultimately show ?thesis by simp
  next
    case False
    then have "total - cur' = (total - cur) - 1000"
      using 2 by (simp add: min_def)
    then have "(total - cur') / 1000 = (total - cur) / 1000 - 1"
      by (simp only: diff_divide_distrib)
    then have "\<lceil>(total - cur') / 1000\<rceil> = \<lceil>(total - cur) / 1000\<rceil> - 1"
      by (simp only: ceiling_diff_one)
    moreover have "1 < (total - cur) / 1000" using False 2 by simp
    then have "1 < \<lceil>(total - cur) / 1000\<rceil>" by linarith
    ultimately have "nat \<lceil>(total - cur') / 1000\<rceil> < nat \<lceil>(total - cur) / 1000\<rceil>"
      by linarith
    then show ?thesis by simp
  qed
qed

declare short_trip_loop.simps [simp del]

function long_trip_loop ::
  "(nat \<Rightarrow> real \<Rightarrow> string) \<Rightarrow> real \<Rightarrow> real \<Rightarrow> real \<Rightarrow> nat \<Rightarrow> segment list" where
  "long_trip_loop label distance total_drive_duration remaining_duration segment_number =
     (if remaining_duration > 0 then
        let drive_duration = min remaining_duration 11;
            remaining_duration' = remaining_duration - drive_duration
        in \<lparr>seg_type = ''drive'', seg_duration = drive_duration,
             seg_location =
               label segment_number (distance * (drive_duration / total_drive_duration))\<rparr> #
           (if remaining_duration' > 0 then
              [\<lparr>seg_type = ''off_duty'', seg_duration = 10,
                seg_location = ''Rest Break (10 hours)''\<rparr>]
            else []) @
           long_trip_loop label distance total_drive_duration remaining_duration'
             (Suc segment_number)
      else [])"
  by pat_completeness auto
termination
proof (relation "measure (\<lambda>(label, dist, dur, rem, n). nat \<lceil>rem / 11\<rceil>)", goal_cases)
  case 1
  show ?case by simp
next
  case (2 label dist dur rem n d rem')
  show ?case
  proof (cases "rem \<le> 11")
    case True
    then have "rem' = 0" using 2 by (simp add: min_def)
    moreover have "0 < rem / 11" using 2 by simp
    then have "0 < \<lceil>rem / 11\<rceil>" by linarith
    ultimately show ?thesis by simp
  next
    case False
    then have "rem' = rem - 11" using 2 by (simp add: min_def)
    then have "\<lceil>rem' / 11\<rceil> = \<lceil>rem / 11\<rceil> - 1"
      by (simp add: diff_divide_distrib)
    moreover have "1 < rem / 11" using False by simp
    then have "1 < \<lceil>rem / 11\<rceil>" by linarith
    ultimately have "nat \<lceil>rem' / 11\<rceil> < nat \<lceil>rem / 11\<rceil>" by linarith
    then show ?thesis by simp
  qed
qed

declare long_trip_loop.simps [simp del]

definition build_segments :: "(nat \<Rightarrow> real \<Rightarrow> string) \<Rightarrow> route_data \<Rightarrow> segment list" where
  "build_segments label route =
     (let max_driving_hours = 11;
          total_drive_duration = route_duration route;
          total_distance = route_distance route
      in [\<lparr>seg_type = ''on_duty'', seg_duration = 1, seg_location = ''Pickup Location''\<rparr>] @
         (if total_drive_duration \<le> max_driving_hours then
            short_trip_loop label total_distance total_drive_duration 0 1
          else
            long_trip_loop label total_distance total_drive_duration total_drive_duration 1) @
         [\<lparr>seg_type = ''on_duty'', seg_duration = 1, seg_location = ''Dropoff Location''\<rparr>])"

subsection \<open>Rest stops and route segments of the response (lines 247-310)\<close>

text \<open>\<open>xs[i:j]\<close> for indices that are not negative.\<close>

definition py_slice :: "'a list \<Rightarrow> int \<Rightarrow> int \<Rightarrow> 'a list" where
  "py_slice xs i j = take (nat j - nat i) (drop (nat i) xs)"

record rest_stop =
  stop_location :: coord
  stop_distance :: real
  time_from_start :: real
  amenities :: "string list"

definition calculate_rest_stops :: "route_data \<Rightarrow> rest_stop list" where
  "calculate_rest_stops route =
     (let distance = route_distance route;
          duration = route_duration route;
          rest_interval_hours = 8;
          rest_intervals = py_int (fdiv duration rest_interval_hours);
          coordinates = route_coordinates route
      in concat (map (\<lambda>i.
           let time_from_start = of_int i * rest_interval_hours;
               distance_ratio = fdiv time_from_start duration;
               distance_from_start = fmul distance_ratio distance
           in if coordinates \<noteq> [] then
                let coord_index =
                      min (py_int (fmul distance_ratio (of_nat (length coordinates))))
                          (int (length coordinates) - 1)
                in [\<lparr>stop_location = coordinates ! nat coord_index,
                      stop_distance = distance_from_start,
                      time_from_start = time_from_start,
                      amenities = [''Fuel'', ''Food'', ''Restrooms'', ''Parking'']\<rparr>]
              else [])
         [1 .. rest_intervals]))"

record route_segment =
  segment_number :: int
  start_distance :: real
  end_distance :: real
  rs_distance :: real
  rs_duration :: real
  rs_coordinates :: "coord list"

text \<open>
  \<open>split_route_segments\<close>, in doubles: the indices of a slice are the truncations of
  rounded products. The loop body divides by \<open>distance\<close> in its first statement after the
  two distances, and the loop runs at least once, so a zero distance raises
  ZeroDivisionError in the first iteration.
\<close>

definition split_route_segments :: "route_data \<Rightarrow> py_error + route_segment list" where
  "split_route_segments route =
     (let distance = route_distance route;
          duration = route_duration route;
          max_driving_hours = 11;
          segments_needed = max 1 (py_int (fdiv duration max_driving_hours));
          segment_distance = fdiv distance (of_int segments_needed);
          coordinates = route_coordinates route
      in if distance = 0 then Inl ZeroDivisionError
         else Inr (map (\<lambda>i.
           let start_distance = fmul (of_int i) segment_distance;
               end_distance = min (fmul (of_int (i + 1)) segment_distance) distance;
               start_coord_index =
                 py_int (fmul (fdiv start_distance distance) (of_nat (length coordinates)));
               end_coord_index =
                 py_int (fmul (fdiv end_distance distance) (of_nat (length coordinates)))
           in \<lparr>segment_number = i + 1,
                start_distance = start_distance,
                end_distance = end_distance,
                rs_distance = fsub end_distance start_distance,
                rs_duration = fmul (fdiv (fsub end_distance start_distance) distance) duration,
                rs_coordinates = py_slice coordinates start_coord_index (end_coord_index + 1)\<rparr>)
           [0 .. segments_needed - 1]))"

record statistics =
  total_distance :: real
  total_duration :: real
  average_speed :: real
  estimated_fuel_cost :: real
  estimated_tolls :: real

definition route_statistics :: "route_data \<Rightarrow> statistics" where
  "route_statistics route =
     \<lparr>total_distance = route_distance route,
      total_duration = route_duration route,
      average_speed =
        (if route_duration route > 0 then fdiv (route_distance route) (route_duration route)
         else 0),
      estimated_fuel_cost = fmul (route_distance route) (fl64 (15 / 100)),
      estimated_tolls = fmul (route_distance route) (fl64 (5 / 100))\<rparr>"

record response_data =
  resp_route :: route_data
  resp_statistics :: statistics
  resp_daily_logs :: "daily_log list"
  resp_rest_stops :: "rest_stop list"
  resp_route_segments :: "route_segment list"

subsection \<open>The store: drivers and daily records (trips/models.py)\<close>

text \<open>
  A \<open>DailyRod\<close> row, keyed by driver and date (\<open>unique_together\<close>). The store is the list
  of rows and the list of driver ids. The hours are kept as they are given; the two-decimal
  quantisation of the \<open>DecimalField\<close> columns belongs to the database layer.
\<close>

record daily_rod =
  rod_driver :: int
  rod_date :: int
  rod_driving_hours :: real
  rod_on_duty_hours :: real
  rod_off_duty_hours :: real
  rod_entries :: "entry list"

record store =
  drivers :: "int list"
  rods :: "daily_rod list"

text \<open>\<open>DailyRod.objects.update_or_create(driver=..., date=..., defaults=...)\<close>\<close>

fun update_or_create :: "daily_rod \<Rightarrow> daily_rod list \<Rightarrow> daily_rod list" where
  "update_or_create r [] = [r]"
| "update_or_create r (x # xs) =
     (if rod_driver x = rod_driver r \<and> rod_date x = rod_date r then r # xs
      else x # update_or_create r xs)"

definition rod_of_log :: "int \<Rightarrow> daily_log \<Rightarrow> daily_rod" where
  "rod_of_log driver dl =
     \<lparr>rod_driver = driver, rod_date = date dl,
      rod_driving_hours = driving_hours (totals dl),
      rod_on_duty_hours = on_duty_hours (totals dl),
      rod_off_duty_hours = off_duty_hours (totals dl),
      rod_entries = entries dl\<rparr>"

text \<open>Lines 204-216: one \<open>update_or_create\<close> per returned log, in order.\<close>

definition persist_logs :: "int \<Rightarrow> daily_log list \<Rightarrow> store \<Rightarrow> store" where
  "persist_logs driver logs db =
     db\<lparr>rods := foldl (\<lambda>rs dl. update_or_create (rod_of_log driver dl) rs) (rods db) logs\<rparr>"

text \<open>
  Lines 75-83: the rows of the driver dated \<open>eight_days_ago\<close> or later, and the sum of
  their on-duty hours. \<open>today\<close> is \<open>timezone.now().date()\<close>.
\<close>

definition recent_rods :: "store \<Rightarrow> int \<Rightarrow> int \<Rightarrow> daily_rod list" where
  "recent_rods db driver today =
     (let eight_days_ago = today - 8
      in filter (\<lambda>rod. rod_driver rod = driver \<and> rod_date rod \<ge> eight_days_ago) (rods db))"

definition weekly_used_from_store :: "store \<Rightarrow> int \<Rightarrow> int \<Rightarrow> real" where
  "weekly_used_from_store db driver today =
     sum_list (map rod_on_duty_hours (recent_rods db driver today))"

subsection \<open>The view \<open>plan_trip\<close>\<close>

text \<open>
  The request body as the serializer sees it: each coordinate is a list of floats, valid
  when it has exactly two elements. Optional fields are options. The request's
  \<open>start_date\<close> is a day number, its \<open>start_time\<close> a time of day in hours.
\<close>

record trip_request =
  current_location :: "real list"
  pickup :: "real list"
  dropoff :: "real list"
  driver_id :: "int option"
  current_cycle_used_hours :: "real option"
  req_start_date :: "int option"
  req_start_time :: "real option"

definition is_valid :: "trip_request \<Rightarrow> bool" where
  "is_valid req =
     (length (current_location req) = 2 \<and> length (pickup req) = 2 \<and>
      length (dropoff req) = 2)"

definition validate_coordinates :: "coord \<Rightarrow> bool" where
  "validate_coordinates c =
     (let lng = fst c; lat = snd c
      in - 180 \<le> lng \<and> lng \<le> 180 \<and> - 90 \<le> lat \<and> lat \<le> 90)"

text \<open>What the view reads besides the request and the store.\<close>

record env =
  env_settings :: settings
  env_network :: network
  env_now :: real
  env_label :: "nat \<Rightarrow> real \<Rightarrow> string"

text \<open>
  The answer of the view: an HTTP status and, on success, the response data. An
  exception that leaves the view is the status 500.
\<close>

record http_response =
  status_code :: nat
  data :: "response_data option"

definition error_response :: "nat \<Rightarrow> http_response" where
  "error_response code = \<lparr>status_code = code, data = None\<rparr>"

text \<open>\<open>if driver_id:\<close> holds for an id that is given and not zero.\<close>

definition truthy_id :: "int option \<Rightarrow> bool" where
  "truthy_id d = (case d of None \<Rightarrow> False | Some i \<Rightarrow> i \<noteq> 0)"

definition start_datetime :: "env \<Rightarrow> trip_request \<Rightarrow> real" where
  "start_datetime e req =
     (case (req_start_date req, req_start_time req) of
        (Some d, Some t) \<Rightarrow> 24 * of_int d + t
      | _ \<Rightarrow> env_now e)"

definition to_coord :: "real list \<Rightarrow> coord" where
  "to_coord xs = (xs ! 0, xs ! 1)"

definition plan_trip :: "env \<Rightarrow> store \<Rightarrow> trip_request \<Rightarrow> http_response \<times> store" where
  "plan_trip e db req =
     (if \<not> is_valid req then (error_response 400, db)
      else
        let current = to_coord (current_location req);
            pick = to_coord (pickup req);
            drop = to_coord (dropoff req)
        in if \<not> (validate_coordinates current \<and> validate_coordinates pick \<and>
                  validate_coordinates drop)
           then (error_response 400, db)
           else
             (case snd (get_route (env_settings e) (env_network e) current pick drop) of
                Inl err \<Rightarrow> (error_response 500, db)
              | Inr route_data \<Rightarrow>
                  if truthy_id (driver_id req) \<and> the (driver_id req) \<notin> set (drivers db)
                  then (error_response 404, db)
                  else
                    let weekly_used =
                          (if truthy_id (driver_id req)
                           then weekly_used_from_store db (the (driver_id req))
                                  (date_of (env_now e))
                           else (case current_cycle_used_hours req of
                                   None \<Rightarrow> 0 | Some h \<Rightarrow> h));
                        segments = build_segments (env_label e) route_data;
                        daily_logs = hos_scheduler (start_datetime e req) segments weekly_used;
                        db' = (if truthy_id (driver_id req)
                               then persist_logs (the (driver_id req)) daily_logs db
                               else db)
                    in (case split_route_segments route_data of
                          Inl err \<Rightarrow> (error_response 500, db')
                        | Inr route_segments \<Rightarrow>
                            (\<lparr>status_code = 200,
                              data = Some
                                \<lparr>resp_route = route_data,
                                 resp_statistics = route_statistics route_data,
                                 resp_daily_logs = daily_logs,
                                 resp_rest_stops = calculate_rest_stops route_data,
                                 resp_route_segments = route_segments\<rparr>\<rparr>, db'))))"

section \<open>Observations on schedules\<close>

text \<open>The entries of a list of logs in the order they were emitted.\<close>

definition all_entries :: "daily_log list \<Rightarrow> entry list" where
  "all_entries dls = concat (map entries dls)"

text \<open>Everything emitted so far: the closed days, then the open one.\<close>

definition timeline :: "sched \<Rightarrow> entry list" where
  "timeline s = all_entries (daily_logs s) @ daily_entries s"

text \<open>The off-duty entries with a given label, in order.\<close>

definition breaks :: "string \<Rightarrow> entry list \<Rightarrow> entry list" where
  "breaks label es = filter (\<lambda>e. status e = ''off_duty'' \<and> location e = label) es"

text \<open>The hours of the entries of a given status.\<close>

definition status_hours :: "string \<Rightarrow> entry list \<Rightarrow> real" where
  "status_hours st es = sum_list (map duration (filter (\<lambda>e. status e = st) es))"

definition entries_total :: "daily_log \<Rightarrow> real" where
  "entries_total dl = sum_list (map duration (entries dl))"

text \<open>
  The weekly history as the specification words it (section 4.4): the on-duty hours of the
  driver's rows dated from eight days before the as-of date up to the as-of date itself.
\<close>

definition spec_weekly_on_duty :: "store \<Rightarrow> int \<Rightarrow> int \<Rightarrow> real" where
  "spec_weekly_on_duty db driver as_of_date =
     sum_list (map rod_on_duty_hours
       (filter (\<lambda>rod. rod_driver rod = driver \<and> rod_date rod \<ge> as_of_date - 8 \<and>
                      rod_date rod \<le> as_of_date) (rods db)))"



text \<open>
  The state in which a segment's chunk loop starts: after the midnight check and the
  checks of the segment's type.
\<close>

definition after_checks :: "sched \<Rightarrow> segment \<Rightarrow> sched" where
  "after_checks s g =
     (let s1 = new_day_check s in
      if seg_type g = ''drive'' then
        eight_hour_check (seg_duration g) (eleven_hour_check (seg_duration g) s1)
      else if seg_type g = ''on_duty'' then fourteen_hour_check (seg_duration g) s1
      else s1)"

text \<open>
  A run in which no inserted break discards hours of the open day or passes its end: at
  every segment the checks leave the day's driving and on-duty totals as they find them
  (they insert no 10-hour break, or insert it while the total it resets is still zero),
  and the clock after the inserted breaks is not past the midnight that ends the day.
\<close>

fun steady :: "sched \<Rightarrow> segment list \<Rightarrow> bool" where
  "steady s [] = True"
| "steady s (g # gs) =
     (daily_driving (after_checks s g) = daily_driving (new_day_check s) \<and>
      daily_on_duty (after_checks s g) = daily_on_duty (new_day_check s) \<and>
      current_time (after_checks s g) \<le> day_start (new_day_check s) + 24 \<and>
      steady (process_segment s g) gs)"


text \<open>
  The states of a run: \<open>day_start\<close> is a midnight, not after the clock. The state in which
  the scheduler takes up the segment that follows the segments \<open>pre\<close> of a trip.
\<close>

definition open_day :: "sched \<Rightarrow> bool" where
  "open_day s = (floor_day (day_start s) = day_start s \<and> day_start s \<le> current_time s)"


section \<open>Properties\<close>

subsection \<open>Days of 24 hours\<close>

text \<open>
  C1. Every returned log should run from 00:00 to 24:00 with entries summing to 24 hours,
  also when an inserted break straddles midnight. The scheduler does not do so: a trip
  starting at 22:45 with one hour of pickup, nine hours of driving and one hour of
  drop-off gets its 30-minute break at 23:45. The break is entered whole in the first day,
  which then holds 24.25 hours and ends at 00:15, and the quarter of an hour after
  midnight is entered again as the leading off-duty entry of the second day.
\<close>

theorem break_across_midnight_day_total:
  "map entries_total
     (hos_scheduler (91/4)
        [\<lparr>seg_type = ''on_duty'', seg_duration = 1, seg_location = ''Pickup Location''\<rparr>,
         \<lparr>seg_type = ''drive'', seg_duration = 9, seg_location = ''Route Segment 1''\<rparr>,
         \<lparr>seg_type = ''on_duty'', seg_duration = 1, seg_location = ''Dropoff Location''\<rparr>] 0)
   = [97/4, 24] \<and>
   map (\<lambda>e. (start_time e, end_time e, location e, duration e))
     (entries (hd (hos_scheduler (91/4)
        [\<lparr>seg_type = ''on_duty'', seg_duration = 1, seg_location = ''Pickup Location''\<rparr>,
         \<lparr>seg_type = ''drive'', seg_duration = 9, seg_location = ''Route Segment 1''\<rparr>,
         \<lparr>seg_type = ''on_duty'', seg_duration = 1, seg_location = ''Dropoff Location''\<rparr>] 0)))
   = [(''00:00'', ''22:45'', ''Off Duty'', 91/4),
      (''22:45'', ''23:45'', ''Pickup Location'', 1),
      (''23:45'', ''00:15'', ''30-min Break'', 1/2)]"
  by code_simp

subsection \<open>One log per calendar day\<close>

text \<open>
  C4. The returned logs should cover every calendar day from the start day on, none
  skipped. With 75 weekly hours used and a start at 20:00 of day 0, the 34-hour restart
  ends at 06:00 of day 2; the next midnight check opens day 2 directly, and no log is
  made for day 1.
\<close>

theorem restart_skips_a_day:
  "map date
     (hos_scheduler 20
        [\<lparr>seg_type = ''on_duty'', seg_duration = 1, seg_location = ''Pickup Location''\<rparr>,
         \<lparr>seg_type = ''drive'', seg_duration = 5, seg_location = ''Route Segment 1''\<rparr>,
         \<lparr>seg_type = ''on_duty'', seg_duration = 1, seg_location = ''Dropoff Location''\<rparr>] 75)
   = [0, 2]"
  by code_simp

subsection \<open>Weekly history\<close>

text \<open>
  C7. The weekly-used figure should sum the rows dated between eight days before the
  as-of date and the as-of date. The query of the view has no upper bound: a row dated
  after the as-of date (here day 11 for the as-of day 10) is counted.
\<close>

theorem weekly_used_counts_future_rows:
  "weekly_used_from_store
     \<lparr>drivers = [1],
      rods = [\<lparr>rod_driver = 1, rod_date = 11, rod_driving_hours = 3,
               rod_on_duty_hours = 5, rod_off_duty_hours = 19, rod_entries = []\<rparr>]\<rparr> 1 10 = 5 \<and>
   spec_weekly_on_duty
     \<lparr>drivers = [1],
      rods = [\<lparr>rod_driver = 1, rod_date = 11, rod_driving_hours = 3,
               rod_on_duty_hours = 5, rod_off_duty_hours = 19, rod_entries = []\<rparr>]\<rparr> 1 10 = 0"
  by (simp add: weekly_used_from_store_def recent_rods_def spec_weekly_on_duty_def)

subsection \<open>Rejected requests leave the store alone\<close>

text \<open>Doubles at concrete inputs are computed by unfolding these equations.\<close>

lemmas fl_eval = fl64_def ilog2_def pow2_def round_half_even_def compute_bitlen
  fadd_def fsub_def fmul_def fdiv_def py_int_def Let_def

lemma fl64_0 [simp]: "fl64 0 = 0"
  by (simp add: fl64_def)

lemma fl64_1 [simp]: "fl64 1 = 1"
  by (simp add: fl_eval)

lemma round_half_even_0 [simp]: "round_half_even 0 = 0"
  by (simp add: round_half_even_def)

lemma fl64_small: "fl64 2 = 2" "fl64 12 = 12" "fl64 600 = 600" "fl64 10 = 10"
  by (simp_all add: fl_eval)

lemma mock_origin:
  "get_mock_route (0, 0) (0, 0) (0, 0) =
     Inr \<lparr>route_distance = 0, route_duration = 0,
          route_coordinates = [(0, 0), (0, 0), (0, 0)]\<rparr>"
  by (simp add: get_mock_route_def haversine_distance_def haversine_a_def radians_def
      py_sqrt_def py_atan2_def py_sin_def py_cos_def py_round2_def
      fadd_def fsub_def fmul_def fdiv_def)

text \<open>
  C10. When \<open>plan_trip\<close> answers 400 or 404 the store is the one it was given. Whenever
  the store does change, a driver of the store was named in the request, the route was
  found, and the new store is the old one with one \<open>update_or_create\<close> per log of the
  finished schedule, applied in order.
\<close>

theorem rejected_request_leaves_store:
  "(status_code (fst (plan_trip e db req)) = 400 \<or> status_code (fst (plan_trip e db req)) = 404
      \<longrightarrow> snd (plan_trip e db req) = db) \<and>
   (snd (plan_trip e db req) \<noteq> db \<longrightarrow>
      (\<exists>d route. driver_id req = Some d \<and> d \<in> set (drivers db) \<and>
         snd (get_route (env_settings e) (env_network e) (to_coord (current_location req))
                (to_coord (pickup req)) (to_coord (dropoff req))) = Inr route \<and>
         snd (plan_trip e db req) =
           persist_logs d
             (hos_scheduler (start_datetime e req) (build_segments (env_label e) route)
                (weekly_used_from_store db d (date_of (env_now e)))) db))"
  by (auto simp: plan_trip_def Let_def error_response_def truthy_id_def
      split: sum.splits if_splits option.splits)

theorem rejected_request_leaves_store_witness:
  "status_code (fst (plan_trip
      \<lparr>env_settings = \<lparr>MAPBOX_ACCESS_TOKEN = None, ORS_API_KEY = None\<rparr>,
       env_network = \<lparr>mapbox_reply = Raised, ors_reply = Raised\<rparr>,
       env_now = 8, env_label = (\<lambda>n d. ''Route Segment'')\<rparr>
      \<lparr>drivers = [1], rods = []\<rparr>
      \<lparr>current_location = [0, 0], pickup = [0, 0], dropoff = [0, 0],
       driver_id = Some 7, current_cycle_used_hours = None,
       req_start_date = None, req_start_time = None\<rparr>)) = 404 \<and>
   snd (plan_trip
      \<lparr>env_settings = \<lparr>MAPBOX_ACCESS_TOKEN = None, ORS_API_KEY = None\<rparr>,
       env_network = \<lparr>mapbox_reply = Raised, ors_reply = Raised\<rparr>,
       env_now = 8, env_label = (\<lambda>n d. ''Route Segment'')\<rparr>
      \<lparr>drivers = [1], rods = []\<rparr>
      \<lparr>current_location = [0, 0], pickup = [0, 0], dropoff = [0, 0],
       driver_id = Some 7, current_cycle_used_hours = None,
       req_start_date = None, req_start_time = None\<rparr>) = \<lparr>drivers = [1], rods = []\<rparr>"
proof -
  let ?e = "\<lparr>env_settings = \<lparr>MAPBOX_ACCESS_TOKEN = None, ORS_API_KEY = None\<rparr>,
       env_network = \<lparr>mapbox_reply = Raised, ors_reply = Raised\<rparr>,
       env_now = 8, env_label = (\<lambda>n d. ''Route Segment'')\<rparr>"
  let ?db = "\<lparr>drivers = [1], rods = []\<rparr>"
  let ?req = "\<lparr>current_location = [0, 0], pickup = [0, 0], dropoff = [0, 0],
       driver_id = Some 7, current_cycle_used_hours = None,
       req_start_date = None, req_start_time = None\<rparr>"
  have st: "status_code (fst (plan_trip ?e ?db ?req)) = 404"
    by (simp add: plan_trip_def is_valid_def to_coord_def validate_coordinates_def
        get_route_def available_def mock_origin truthy_id_def error_response_def)
  with rejected_request_leaves_store [of ?e ?db ?req] show ?thesis by simp
qed

subsection \<open>Route client: provider choice and fallback\<close>

text \<open>
  The estimator raises exactly when the haversine term, as computed, is negative or
  exceeds 1 by enough for \<open>1 - a\<close> to come out negative.
\<close>

lemma haversine_distance_raises:
  "haversine_distance c1 c2 = Inl ValueError \<longleftrightarrow>
     haversine_a c1 c2 < 0 \<or> fsub 1 (haversine_a c1 c2) < 0"
  by (simp add: haversine_distance_def py_sqrt_def Let_def)

text \<open>
  C9, as the code has it. \<open>get_route\<close> sends one request at most, to the first configured
  provider (Mapbox, else ORS), and returns that provider's first result converted; when
  the attempt raises or has no result, it returns what the haversine estimator returns,
  without trying the other provider. With no provider configured it returns what the
  estimator returns, without a request.
\<close>

theorem get_route_first_configured_then_estimate:
  "get_route cfg net cur pick dst =
     (if available (MAPBOX_ACCESS_TOKEN cfg) then
        ([Mapbox],
         case mapbox_reply net of
           Found metres seconds geometry \<Rightarrow>
             Inr \<lparr>route_distance = py_round2 (fmul metres (fl64 (621371 / 1000000000))),
                  route_duration = py_round2 (fdiv seconds 3600),
                  route_coordinates = geometry\<rparr>
         | _ \<Rightarrow> get_mock_route cur pick dst)
      else if available (ORS_API_KEY cfg) then
        ([ORS],
         case ors_reply net of
           Found metres seconds geometry \<Rightarrow>
             Inr \<lparr>route_distance = py_round2 (fmul metres (fl64 (621371 / 1000000000))),
                  route_duration = py_round2 (fdiv seconds 3600),
                  route_coordinates = geometry\<rparr>
         | _ \<Rightarrow> get_mock_route cur pick dst)
      else ([], get_mock_route cur pick dst))"
  by (simp add: get_route_def get_mapbox_route_def get_ors_route_def convert_reply_def
      split: reply.splits)

lemma ors_numbers:
  "py_round2 (fmul 1000000 (fl64 (621371 / 1000000000))) = fl64 (62137 / 100)"
  "py_round2 (fdiv 36000 3600) = 10"
  by (simp_all add: py_round2_def fl_eval)

text \<open>
  C9 as stated fails: with both providers configured, a Mapbox attempt that raises is
  answered with the estimate; ORS, which would have returned a route of ten hours, is
  never called.
\<close>

theorem mapbox_failure_skips_ors:
  "get_route \<lparr>MAPBOX_ACCESS_TOKEN = Some ''pk'', ORS_API_KEY = Some ''key''\<rparr>
     \<lparr>mapbox_reply = Raised, ors_reply = Found 1000000 36000 [(0, 0), (1, 1)]\<rparr>
     (0, 0) (0, 0) (0, 0)
   = ([Mapbox], Inr \<lparr>route_distance = 0, route_duration = 0,
                     route_coordinates = [(0, 0), (0, 0), (0, 0)]\<rparr>) \<and>
   get_ors_route \<lparr>mapbox_reply = Raised, ors_reply = Found 1000000 36000 [(0, 0), (1, 1)]\<rparr>
     (0, 0) (0, 0) (0, 0)
   = Inr \<lparr>route_distance = fl64 (62137 / 100), route_duration = 10,
          route_coordinates = [(0, 0), (1, 1)]\<rparr>"
proof
  show "get_route \<lparr>MAPBOX_ACCESS_TOKEN = Some ''pk'', ORS_API_KEY = Some ''key''\<rparr>
     \<lparr>mapbox_reply = Raised, ors_reply = Found 1000000 36000 [(0, 0), (1, 1)]\<rparr>
     (0, 0) (0, 0) (0, 0)
   = ([Mapbox], Inr \<lparr>route_distance = 0, route_duration = 0,
                     route_coordinates = [(0, 0), (0, 0), (0, 0)]\<rparr>)"
    by (simp add: get_route_def available_def get_mapbox_route_def convert_reply_def
        mock_origin)
  show "get_ors_route \<lparr>mapbox_reply = Raised, ors_reply = Found 1000000 36000 [(0, 0), (1, 1)]\<rparr>
     (0, 0) (0, 0) (0, 0)
   = Inr \<lparr>route_distance = fl64 (62137 / 100), route_duration = 10,
          route_coordinates = [(0, 0), (1, 1)]\<rparr>"
    by (simp add: get_ors_route_def convert_reply_def ors_numbers)
qed

subsection \<open>Route segments and statistics of the response\<close>

lemma twelve_hours_one_segment: "py_int (fdiv 12 11) = 1"
  by (simp add: fl_eval)

text \<open>
  C8. The response should cut the route into \<open>\<lceil>duration / 11\<rceil>\<close> slices. The code
  computes \<open>segments_needed = max(1, int(duration / max_driving_hours))\<close>, which truncates:
  a route of 12 hours is returned as one slice of 12 hours, above the
  \<open>max_driving_hours = 11\<close> that the function names as the limit, while the planner of
  the same view cuts the same route into two driving segments of 11 hours and 1 hour.
\<close>

theorem twelve_hour_route_is_one_slice:
  "split_route_segments
     \<lparr>route_distance = 600, route_duration = 12, route_coordinates = [(0, 0), (1, 1)]\<rparr>
   = Inr [\<lparr>segment_number = 1, start_distance = 0, end_distance = 600, rs_distance = 600,
           rs_duration = 12, rs_coordinates = [(0, 0), (1, 1)]\<rparr>] \<and>
   map seg_duration (filter (\<lambda>g. seg_type g = ''drive'')
     (build_segments (\<lambda>n d. ''Route Segment'')
        \<lparr>route_distance = 600, route_duration = 12, route_coordinates = [(0, 0), (1, 1)]\<rparr>))
   = [11, 1]"
proof
  show "split_route_segments
     \<lparr>route_distance = 600, route_duration = 12, route_coordinates = [(0, 0), (1, 1)]\<rparr>
   = Inr [\<lparr>segment_number = 1, start_distance = 0, end_distance = 600, rs_distance = 600,
           rs_duration = 12, rs_coordinates = [(0, 0), (1, 1)]\<rparr>]"
    apply (simp add: split_route_segments_def twelve_hours_one_segment Let_def)
    apply (simp add: fmul_def fdiv_def fsub_def fl64_small py_int_def py_slice_def)
    done
  show "map seg_duration (filter (\<lambda>g. seg_type g = ''drive'')
     (build_segments (\<lambda>n d. ''Route Segment'')
        \<lparr>route_distance = 600, route_duration = 12, route_coordinates = [(0, 0), (1, 1)]\<rparr>))
   = [11, 1]"
    by code_simp
qed

text \<open>
  The slices follow the truncation of the doubles: for a route of 2501 miles and 55 hours
  with ten points, the second of the five slices starts at index
  \<open>int(1.9999999999999998) = 1\<close>, not 2.
\<close>

lemma five_segments: "py_int (fdiv 55 11) = 5"
  by (simp add: fl_eval)

lemma upto_0_4: "[0..4] = [0, 1, 2, 3, 4::int]"
  by (simp add: upto.simps)

lemma slice_starts:
  "py_int (fmul (fdiv (fmul 0 (fdiv 2501 5)) 2501) 10) = 0"
  "py_int (fmul (fdiv (fmul 1 (fdiv 2501 5)) 2501) 10) = 1"
  "py_int (fmul (fdiv (fmul 2 (fdiv 2501 5)) 2501) 10) = 3"
  "py_int (fmul (fdiv (fmul 3 (fdiv 2501 5)) 2501) 10) = 6"
  "py_int (fmul (fdiv (fmul 4 (fdiv 2501 5)) 2501) 10) = 7"
  by (simp_all add: fl_eval)

lemma slice_ends:
  "py_int (fmul (fdiv (min (fmul 1 (fdiv 2501 5)) 2501) 2501) 10) = 1"
  "py_int (fmul (fdiv (min (fmul 2 (fdiv 2501 5)) 2501) 2501) 10) = 3"
  "py_int (fmul (fdiv (min (fmul 3 (fdiv 2501 5)) 2501) 2501) 10) = 6"
  "py_int (fmul (fdiv (min (fmul 4 (fdiv 2501 5)) 2501) 2501) 10) = 7"
  "py_int (fmul (fdiv (min (fmul 5 (fdiv 2501 5)) 2501) 2501) 10) = 10"
  by (simp_all add: fl_eval)

lemma slices_follow_float_truncation:
  "map_sum id (map rs_coordinates)
     (split_route_segments
        \<lparr>route_distance = 2501, route_duration = 55,
         route_coordinates = [(0, 0), (1, 0), (2, 0), (3, 0), (4, 0), (5, 0), (6, 0), (7, 0),
                              (8, 0), (9, 0)]\<rparr>)
   = Inr [[(0, 0), (1, 0)], [(1, 0), (2, 0), (3, 0)], [(3, 0), (4, 0), (5, 0), (6, 0)],
          [(6, 0), (7, 0)], [(7, 0), (8, 0), (9, 0)]]"
  apply (simp add: split_route_segments_def five_segments Let_def upto_0_4)
  apply (simp add: slice_starts slice_ends py_slice_def)
  done

subsection \<open>The emitted timeline\<close>

text \<open>
  Every step of the scheduler only appends to the timeline. The entries a step appends are
  the leading off-duty entry of a new day, an inserted break, or a chunk of the segment.
\<close>

lemma breaks_append [simp]: "breaks L (xs @ ys) = breaks L xs @ breaks L ys"
  by (simp add: breaks_def)

lemma breaks_Nil [simp]: "breaks L [] = []"
  by (simp add: breaks_def)

lemma all_entries_snoc [simp]: "all_entries (logs @ [l]) = all_entries logs @ entries l"
  by (simp add: all_entries_def)

lemma timeline_leading_off_duty:
  "timeline (leading_off_duty s) =
     timeline s @
       (if current_time s > day_start s then
          [\<lparr>start_time = ''00:00'', end_time = strftime_HM (current_time s),
            status = ''off_duty'', location = ''Off Duty'',
            duration = current_time s - day_start s\<rparr>]
        else [])"
  by (simp add: leading_off_duty_def timeline_def Let_def)

lemma breaks_leading_off_duty:
  "L \<noteq> ''Off Duty'' \<Longrightarrow> breaks L (timeline (leading_off_duty s)) = breaks L (timeline s)"
  by (simp add: timeline_leading_off_duty) (simp add: breaks_def)

lemma breaks_new_day_check:
  assumes "L \<noteq> ''Off Duty''"
  shows "breaks L (timeline (new_day_check s)) = breaks L (timeline s)"
proof (cases "date_of (current_time s) \<noteq> date_of (day_start s)")
  case True
  then have "breaks L (timeline (new_day_check s)) =
      breaks L (timeline (s\<lparr>daily_logs := daily_logs s @ [save_day s],
             day_start := floor_day (current_time s),
             daily_entries := [],
             daily_driving := 0, daily_on_duty := 0, daily_off_duty := 0\<rparr>))"
    by (simp add: new_day_check_def breaks_leading_off_duty [OF assms])
  also have "\<dots> = breaks L (timeline s)"
    by (simp add: timeline_def save_day_def)
  finally show ?thesis .
next
  case False
  then show ?thesis by (simp add: new_day_check_def)
qed

lemma timeline_insert_break:
  "timeline (insert_break label d s) =
     timeline s @
       [\<lparr>start_time = strftime_HM (current_time s),
         end_time = strftime_HM (current_time s + d),
         status = ''off_duty'', location = label, duration = d\<rparr>]"
  by (simp add: insert_break_def timeline_def)

lemma timeline_emit_chunk:
  "timeline (emit_chunk ty loc d s) =
     timeline s @
       [\<lparr>start_time = strftime_HM (current_time s),
         end_time = strftime_HM (current_time s + d),
         status = (if ty = ''drive'' then ''driving'' else ty),
         location = loc, duration = d\<rparr>]"
  by (simp add: emit_chunk_def timeline_def Let_def)

lemma breaks_emit_chunk:
  "ty \<noteq> ''off_duty'' \<or> loc \<noteq> L \<Longrightarrow>
   breaks L (timeline (emit_chunk ty loc d s)) = breaks L (timeline s)"
  by (auto simp add: timeline_emit_chunk breaks_def)

lemma breaks_segment_loop:
  "L \<noteq> ''Off Duty'' \<Longrightarrow> ty \<noteq> ''off_duty'' \<or> loc \<noteq> L \<Longrightarrow>
   breaks L (timeline (segment_loop ty loc s r)) = breaks L (timeline s)"
proof (induction ty loc s r rule: segment_loop.induct)
  case (1 ty loc s r)
  show ?case
  proof (cases "r > 0")
    case True
    define s1 where "s1 = new_day_check s"
    define d where "d = min r (day_start s1 + 24 - current_time s1)"
    have "segment_loop ty loc s r = segment_loop ty loc (emit_chunk ty loc d s1) (r - d)"
      using True by (subst segment_loop.simps) (simp add: s1_def d_def Let_def)
    moreover have "breaks L (timeline (segment_loop ty loc (emit_chunk ty loc d s1) (r - d)))
        = breaks L (timeline (emit_chunk ty loc d s1))"
      using "1.IH" [OF True s1_def refl d_def] "1.prems" by (simp add: s1_def)
    ultimately show ?thesis
      using "1.prems" by (simp add: breaks_emit_chunk breaks_new_day_check s1_def)
  next
    case False
    then show ?thesis by (subst segment_loop.simps) simp
  qed
qed

lemma breaks_eleven_hour_check:
  "breaks L (timeline (eleven_hour_check d s)) =
     breaks L (timeline s) @
       (if daily_driving s + d > 11 \<and> L = ''Rest Break (10 hours)'' then
          [\<lparr>start_time = strftime_HM (current_time s),
            end_time = strftime_HM (current_time s + 10),
            status = ''off_duty'', location = ''Rest Break (10 hours)'', duration = 10\<rparr>]
        else [])"
  by (simp add: eleven_hour_check_def timeline_def insert_break_def breaks_def)

lemma breaks_eight_hour_check:
  "L \<noteq> ''30-min Break'' \<Longrightarrow>
   breaks L (timeline (eight_hour_check d s)) = breaks L (timeline s)"
  by (simp add: eight_hour_check_def timeline_def insert_break_def breaks_def)

lemma breaks_fourteen_hour_check:
  "L \<noteq> ''14-hour Reset'' \<Longrightarrow>
   breaks L (timeline (fourteen_hour_check d s)) = breaks L (timeline s)"
  by (simp add: fourteen_hour_check_def timeline_def insert_break_def breaks_def)

lemma breaks_process_segment:
  assumes "L \<noteq> ''Off Duty''" "L \<noteq> ''Rest Break (10 hours)''" "L \<noteq> ''30-min Break''"
    "L \<noteq> ''14-hour Reset''" "\<not> (seg_type g = ''off_duty'' \<and> seg_location g = L)"
  shows "breaks L (timeline (process_segment s g)) = breaks L (timeline s)"
  using assms
  by (simp add: process_segment_def Let_def breaks_segment_loop breaks_eight_hour_check
      breaks_eleven_hour_check breaks_fourteen_hour_check breaks_new_day_check)

lemma breaks_run_segments:
  assumes "L \<noteq> ''Off Duty''" "L \<noteq> ''Rest Break (10 hours)''" "L \<noteq> ''30-min Break''"
    "L \<noteq> ''14-hour Reset''"
  shows "list_all (\<lambda>g. \<not> (seg_type g = ''off_duty'' \<and> seg_location g = L)) segments \<Longrightarrow>
         breaks L (timeline (run_segments s segments)) = breaks L (timeline s)"
proof (induction segments arbitrary: s)
  case Nil
  then show ?case by (simp add: run_segments_def)
next
  case (Cons g gs)
  then show ?case
    using breaks_process_segment [OF assms, of g s]
    by (simp add: run_segments_def)
qed

lemma all_entries_hos_scheduler:
  "all_entries (hos_scheduler start segments w) =
     timeline (final_off_duty (run_segments
       (weekly_check (leading_off_duty (initial_state start w))) segments))"
  by (simp add: hos_scheduler_def Let_def timeline_def save_day_def)

lemma breaks_final_off_duty:
  "L \<noteq> ''Off Duty'' \<Longrightarrow> breaks L (timeline (final_off_duty s)) = breaks L (timeline s)"
  by (simp add: final_off_duty_def Let_def timeline_def breaks_def)

lemma strftime_examples:
  "strftime_HM 0 = ''00:00''" "strftime_HM 10 = ''10:00''"
  "strftime_HM 8 = ''08:00''" "strftime_HM 42 = ''18:00''"
  by code_simp+

subsection \<open>The 11-hour check of a drive segment\<close>




subsection \<open>The weekly counter\<close>

text \<open>
  \<open>weekly_hours\<close> is written by the 70-hour check and after the last segment only: no
  segment changes it.
\<close>

lemma weekly_hours_new_day_check [simp]:
  "weekly_hours (new_day_check s) = weekly_hours s"
  by (simp add: new_day_check_def leading_off_duty_def Let_def)

lemma weekly_hours_emit_chunk [simp]:
  "weekly_hours (emit_chunk ty loc d s) = weekly_hours s"
  by (simp add: emit_chunk_def Let_def)

lemma segment_loop_step:
  "0 < r \<Longrightarrow>
   segment_loop ty loc s r =
     segment_loop ty loc
       (emit_chunk ty loc
          (min r (day_start (new_day_check s) + 24 - current_time s)) (new_day_check s))
       (r - min r (day_start (new_day_check s) + 24 - current_time s))"
  by (subst segment_loop.simps) (simp add: Let_def)

lemma segment_loop_done: "\<not> 0 < r \<Longrightarrow> segment_loop ty loc s r = s"
  by (subst segment_loop.simps) simp

lemma weekly_hours_segment_loop:
  "weekly_hours (segment_loop ty loc s r) = weekly_hours s"
proof (induction ty loc s r rule: segment_loop.induct)
  case (1 ty loc s r)
  show ?case
  proof (cases "0 < r")
    case True
    with "1.IH" [OF True refl refl refl] show ?thesis
      by (simp add: segment_loop_step [OF True])
  next
    case False
    then show ?thesis by (simp add: segment_loop_done)
  qed
qed

lemma weekly_hours_process_segment: "weekly_hours (process_segment s g) = weekly_hours s"
  by (simp add: process_segment_def Let_def weekly_hours_segment_loop eleven_hour_check_def
      eight_hour_check_def fourteen_hour_check_def insert_break_def)

lemma weekly_hours_run_segments: "weekly_hours (run_segments s segments) = weekly_hours s"
  by (induction segments arbitrary: s)
     (simp_all add: run_segments_def weekly_hours_process_segment)

subsection \<open>The 70-hour check\<close>

text \<open>
  C3, as the code has it. The 70-hour rule is tested once, before the first segment: when
  \<open>weekly_used > 70\<close>, one "34-hour Restart" entry is emitted from the start instant, the
  clock moves on by 34 hours and \<open>weekly_hours\<close> is set to zero. The segments leave
  \<open>weekly_hours\<close> as the check left it, and the schedule holds no other restart entry,
  whatever hours the segments add (provided no planned off-duty segment carries that label
  itself).
\<close>

theorem restart_only_before_first_segment:
  assumes "list_all (\<lambda>g. \<not> (seg_type g = ''off_duty'' \<and> seg_location g = ''34-hour Restart''))
             segments"
  shows "breaks ''34-hour Restart'' (all_entries (hos_scheduler start segments weekly_used)) =
           (if weekly_used > 70 then
              [\<lparr>start_time = strftime_HM start, end_time = strftime_HM (start + 34),
                status = ''off_duty'', location = ''34-hour Restart'', duration = 34\<rparr>]
            else []) \<and>
         weekly_hours (weekly_check (leading_off_duty (initial_state start weekly_used))) =
           (if weekly_used > 70 then 0 else weekly_used) \<and>
         current_time (weekly_check (leading_off_duty (initial_state start weekly_used))) =
           (if weekly_used > 70 then start + 34 else start) \<and>
         weekly_hours (run_segments
             (weekly_check (leading_off_duty (initial_state start weekly_used))) segments) =
           (if weekly_used > 70 then 0 else weekly_used)"
proof -
  define s0 where "s0 = leading_off_duty (initial_state start weekly_used)"
  have wh: "weekly_hours s0 = weekly_used"
    by (simp add: s0_def leading_off_duty_def initial_state_def Let_def)
  have ct: "current_time s0 = start"
    by (simp add: s0_def initial_state_def)
  have "timeline (initial_state start weekly_used) = []"
    by (simp add: timeline_def initial_state_def all_entries_def)
  then have b0: "breaks ''34-hour Restart'' (timeline s0) = []"
    by (simp add: s0_def breaks_leading_off_duty)
  have tl: "timeline (weekly_check s0) =
      timeline s0 @
        (if weekly_used > 70 then
           [\<lparr>start_time = strftime_HM start, end_time = strftime_HM (start + 34),
             status = ''off_duty'', location = ''34-hour Restart'', duration = 34\<rparr>]
         else [])"
  proof (cases "weekly_used > 70")
    case True
    then have "timeline (weekly_check s0) =
        timeline (insert_break ''34-hour Restart'' 34 s0)"
      by (simp add: weekly_check_def wh timeline_def)
    then show ?thesis using True by (simp add: timeline_insert_break ct)
  next
    case False
    then show ?thesis by (simp add: weekly_check_def wh)
  qed
  have "breaks ''34-hour Restart'' (all_entries (hos_scheduler start segments weekly_used)) =
      breaks ''34-hour Restart'' (timeline (weekly_check s0))"
    using assms
    by (simp add: all_entries_hos_scheduler breaks_final_off_duty breaks_run_segments s0_def)
  also have "\<dots> = (if weekly_used > 70 then
              [\<lparr>start_time = strftime_HM start, end_time = strftime_HM (start + 34),
                status = ''off_duty'', location = ''34-hour Restart'', duration = 34\<rparr>]
            else [])"
    unfolding tl by (simp add: b0) (simp add: breaks_def)
  finally have br: "breaks ''34-hour Restart''
        (all_entries (hos_scheduler start segments weekly_used)) =
      (if weekly_used > 70 then
         [\<lparr>start_time = strftime_HM start, end_time = strftime_HM (start + 34),
           status = ''off_duty'', location = ''34-hour Restart'', duration = 34\<rparr>]
       else [])" .
  have w0: "weekly_hours (weekly_check s0) = (if weekly_used > 70 then 0 else weekly_used)"
    by (simp add: weekly_check_def wh)
  have c0: "current_time (weekly_check s0) = (if weekly_used > 70 then start + 34 else start)"
    by (simp add: weekly_check_def wh ct insert_break_def)
  have w1: "weekly_hours (run_segments (weekly_check s0) segments) =
      (if weekly_used > 70 then 0 else weekly_used)"
    by (simp only: weekly_hours_run_segments w0)
  from br w0 c0 w1 show ?thesis unfolding s0_def by blast
qed

theorem restart_only_before_first_segment_witness:
  "list_all (\<lambda>g. \<not> (seg_type g = ''off_duty'' \<and> seg_location g = ''34-hour Restart''))
     [\<lparr>seg_type = ''on_duty'', seg_duration = 5, seg_location = ''Pickup Location''\<rparr>] \<and>
   breaks ''34-hour Restart''
     (all_entries (hos_scheduler 8
        [\<lparr>seg_type = ''on_duty'', seg_duration = 5, seg_location = ''Pickup Location''\<rparr>] 75)) =
     [\<lparr>start_time = ''08:00'', end_time = ''18:00'', status = ''off_duty'',
       location = ''34-hour Restart'', duration = 34\<rparr>] \<and>
   weekly_hours (weekly_check (leading_off_duty (initial_state 8 75))) = 0 \<and>
   current_time (weekly_check (leading_off_duty (initial_state 8 75))) = 42 \<and>
   weekly_hours (run_segments (weekly_check (leading_off_duty (initial_state 8 75)))
     [\<lparr>seg_type = ''on_duty'', seg_duration = 5, seg_location = ''Pickup Location''\<rparr>]) = 0"
proof -
  let ?segs = "[\<lparr>seg_type = ''on_duty'', seg_duration = 5, seg_location = ''Pickup Location''\<rparr>]"
  have h: "list_all (\<lambda>g. \<not> (seg_type g = ''off_duty'' \<and> seg_location g = ''34-hour Restart''))
     ?segs" by simp
  from restart_only_before_first_segment [OF h, of 8 75] h show ?thesis
    by (simp add: strftime_examples)
qed

text \<open>
  C3 as stated fails: starting at 69 weekly hours, seven hours of duty bring the running
  total to 76 and no restart is emitted.
\<close>

theorem seventy_hours_crossed_without_restart:
  "breaks ''34-hour Restart''
     (all_entries (hos_scheduler 8
        [\<lparr>seg_type = ''on_duty'', seg_duration = 1, seg_location = ''Pickup Location''\<rparr>,
         \<lparr>seg_type = ''drive'', seg_duration = 5, seg_location = ''Route Segment 1''\<rparr>,
         \<lparr>seg_type = ''on_duty'', seg_duration = 1, seg_location = ''Dropoff Location''\<rparr>] 69)) = [] \<and>
   69 + (status_hours ''driving''
     (all_entries (hos_scheduler 8
        [\<lparr>seg_type = ''on_duty'', seg_duration = 1, seg_location = ''Pickup Location''\<rparr>,
         \<lparr>seg_type = ''drive'', seg_duration = 5, seg_location = ''Route Segment 1''\<rparr>,
         \<lparr>seg_type = ''on_duty'', seg_duration = 1, seg_location = ''Dropoff Location''\<rparr>] 69)) +
    status_hours ''on_duty''
     (all_entries (hos_scheduler 8
        [\<lparr>seg_type = ''on_duty'', seg_duration = 1, seg_location = ''Pickup Location''\<rparr>,
         \<lparr>seg_type = ''drive'', seg_duration = 5, seg_location = ''Route Segment 1''\<rparr>,
         \<lparr>seg_type = ''on_duty'', seg_duration = 1, seg_location = ''Dropoff Location''\<rparr>] 69))) = 76"
  by code_simp

subsection \<open>The states of a run\<close>


lemma floor_day_idem [simp]: "floor_day (floor_day t) = floor_day t"
  by (simp add: floor_day_def date_of_def)




lemma open_day_insert_break: "open_day s \<Longrightarrow> 0 \<le> d \<Longrightarrow> open_day (insert_break L d s)"
  by (simp add: open_day_def insert_break_def)







lemma new_day_check_idem [simp]: "new_day_check (new_day_check s) = new_day_check s"
  by (simp add: new_day_check_def [of "new_day_check s"])


subsection \<open>Off-duty segments\<close>






subsection \<open>Daily totals\<close>

lemma status_hours_Nil [simp]: "status_hours st [] = 0"
  by (simp add: status_hours_def)

























text \<open>
  Steady runs include the trips on which only 30-minute breaks are inserted within a day,
  such as the planner's segments for a route of 30 hours. They exclude the run whose
  30-minute break passes midnight (the day then has 24.25 hours), and a run whose 10-hour
  rest break discards six hours of driving from \<open>driving_hours\<close>.
\<close>

lemma thirty_hour_route_is_steady:
  "steady (weekly_check (leading_off_duty (initial_state 8 0)))
     (build_segments (\<lambda>n d. ''Route Segment'')
        \<lparr>route_distance = 1500, route_duration = 30, route_coordinates = [(0, 0), (1, 1)]\<rparr>)"
  by code_simp

lemma break_past_midnight_is_not_steady:
  "\<not> steady (weekly_check (leading_off_duty (initial_state (91/4) 0)))
     [\<lparr>seg_type = ''on_duty'', seg_duration = 1, seg_location = ''Pickup Location''\<rparr>,
      \<lparr>seg_type = ''drive'', seg_duration = 9, seg_location = ''Route Segment 1''\<rparr>,
      \<lparr>seg_type = ''on_duty'', seg_duration = 1, seg_location = ''Dropoff Location''\<rparr>]"
  by code_simp

lemma rest_break_discarding_hours_is_not_steady:
  "\<not> steady (weekly_check (leading_off_duty (initial_state 0 0)))
     [\<lparr>seg_type = ''drive'', seg_duration = 6, seg_location = ''Route A''\<rparr>,
      \<lparr>seg_type = ''drive'', seg_duration = 6, seg_location = ''Route B''\<rparr>] \<and>
   map (\<lambda>dl. (driving_hours (totals dl), status_hours ''driving'' (entries dl)))
     (hos_scheduler 0
       [\<lparr>seg_type = ''drive'', seg_duration = 6, seg_location = ''Route A''\<rparr>,
        \<lparr>seg_type = ''drive'', seg_duration = 6, seg_location = ''Route B''\<rparr>] 0)
   = [(6, 12)]"
  by code_simp


end
